theory Spec2Isabelle
  imports Complex_Main "HOL-Library.Sublist"
begin

section \<open>JavaScript string primitives used by the sources\<close>

text \<open>
  A JavaScript string is modelled as a HOL \<open>string\<close>: a list of characters, each one a
  code unit below 256. The functions below are the library methods the sources call
  (\<open>split\<close>, \<open>join\<close>, \<open>trim\<close>, \<open>startsWith\<close>, \<open>includes\<close>), written as executable
  functions; \<open>slice\<close> and \<open>substring\<close> are \<open>take\<close> and \<open>drop\<close>.
\<close>

definition newline :: char where
  "newline = CHR 0x0A"

text \<open>\<open>s.split(c)\<close> for a one-character separator: the empty string gives one empty
  piece, and \<open>n\<close> separators give \<open>n + 1\<close> pieces.\<close>

fun split_on :: "char \<Rightarrow> string \<Rightarrow> string list" where
  "split_on c [] = [[]]"
| "split_on c (a # s) =
     (if a = c then [] # split_on c s
      else (case split_on c s of
              [] \<Rightarrow> [[a]]
            | piece # pieces \<Rightarrow> (a # piece) # pieces))"

definition split_lines :: "string \<Rightarrow> string list" where
  "split_lines s = split_on newline s"

text \<open>\<open>xs.join(sep)\<close>.\<close>

fun join_with :: "string \<Rightarrow> string list \<Rightarrow> string" where
  "join_with sep [] = []"
| "join_with sep [piece] = piece"
| "join_with sep (piece # rest) = piece @ sep @ join_with sep rest"

definition join_lines :: "string list \<Rightarrow> string" where
  "join_lines ls = join_with [newline] ls"

text \<open>White space as \<open>trim()\<close> and the regular expression class \<open>\s\<close> see it, among the
  code units below 256: tab, line feed, vertical tab, form feed, carriage return, space
  and the no-break space.\<close>

definition is_space :: "char \<Rightarrow> bool" where
  "is_space c = (c \<in> set [CHR 0x09, CHR 0x0A, CHR 0x0B, CHR 0x0C, CHR 0x0D, CHR 0x20, CHR 0xA0])"

definition trim :: "string \<Rightarrow> string" where
  "trim s = rev (dropWhile is_space (rev (dropWhile is_space s)))"

text \<open>\<open>s.startsWith(p)\<close>.\<close>

fun startsWith :: "string \<Rightarrow> string \<Rightarrow> bool" where
  "startsWith s [] = True"
| "startsWith [] (b # p) = False"
| "startsWith (a # s) (b # p) = (a = b \<and> startsWith s p)"

text \<open>\<open>s.includes(p)\<close>: \<open>p\<close> occurs in \<open>s\<close> as a contiguous piece.\<close>

fun str_includes :: "string \<Rightarrow> string \<Rightarrow> bool" where
  "str_includes [] p = (p = [])"
| "str_includes (a # s) p = (startsWith (a # s) p \<or> str_includes s p)"

section \<open>codeUtils.js: the generated/manual split\<close>

record code_parts =
  generated :: string
  manual :: string

text \<open>\<open>separateGeneratedFromManual(fullCode, generatedLineCount)\<close>. The line count is
  an integer; zero and negative counts take the early return, as \<open>!generatedLineCount ||
  generatedLineCount <= 0\<close> does.\<close>

definition separateGeneratedFromManual :: "string \<Rightarrow> int \<Rightarrow> code_parts" where
  "separateGeneratedFromManual fullCode generatedLineCount =
     (if fullCode = [] then \<lparr>generated = [], manual = []\<rparr>
      else
        let lines = split_lines fullCode in
        if generatedLineCount \<le> 0 then \<lparr>generated = [], manual = fullCode\<rparr>
        else
          let generatedLines = take (nat generatedLineCount) lines;
              manualLines = drop (nat generatedLineCount) lines
          in \<lparr>generated = join_lines generatedLines, manual = join_lines manualLines\<rparr>)"

text \<open>\<open>concatenateCodes(generated, manual)\<close>: an empty string is falsy.\<close>

definition concatenateCodes :: "string \<Rightarrow> string \<Rightarrow> string" where
  "concatenateCodes gen man =
     (if gen = [] \<and> man = [] then []
      else if gen = [] then man
      else if man = [] then gen
      else gen @ [newline] @ man)"

text \<open>\<open>countLines(code)\<close>.\<close>

definition countLines :: "string \<Rightarrow> int" where
  "countLines code = (if code = [] then 0 else int (length (split_lines code)))"

text \<open>\<open>extractManualCodeFallback(generatedCode, fullCode)\<close>. Its loop walks both line
  arrays with one index and stops at the first pair of lines that differ after
  trimming; \<open>matchIndex\<close> is the number of leading lines that agree.\<close>

function match_loop :: "string list \<Rightarrow> string list \<Rightarrow> nat \<Rightarrow> nat \<Rightarrow> nat" where
  "match_loop generatedLines fullLines i matchIndex =
     (if i < length generatedLines \<and> i < length fullLines then
        (if trim (generatedLines ! i) = trim (fullLines ! i)
         then match_loop generatedLines fullLines (i + 1) (i + 1)
         else matchIndex)
      else matchIndex)"
  by pat_completeness auto
termination
  by (relation "measure (\<lambda>(g, f, i, m). length g - i)") auto

declare match_loop.simps [simp del]

definition extractManualCodeFallback :: "string \<Rightarrow> string \<Rightarrow> string" where
  "extractManualCodeFallback generatedCode fullCode =
     (if generatedCode = [] \<or> fullCode = [] then []
      else
        let generatedLines = split_lines generatedCode;
            fullLines = split_lines fullCode;
            matchIndex = match_loop generatedLines fullLines 0 0;
            manualLines = drop matchIndex fullLines
        in trim (join_lines manualLines))"

record merge_result =
  merged :: string
  hasConflict :: bool

text \<open>\<open>mergeGeneratedAndManual(newGenerated, oldGenerated, fullCode)\<close>;
  \<open>fullCode.slice(n)\<close> drops the first \<open>n\<close> code units.\<close>

definition mergeGeneratedAndManual :: "string \<Rightarrow> string \<Rightarrow> string \<Rightarrow> merge_result" where
  "mergeGeneratedAndManual newGenerated oldGenerated fullCode =
     (if startsWith fullCode oldGenerated then
        let manualText = drop (length oldGenerated) fullCode
        in \<lparr>merged = newGenerated @ manualText, hasConflict = False\<rparr>
      else
        let manualText = extractManualCodeFallback oldGenerated fullCode
        in \<lparr>merged = newGenerated @ [newline] @ manualText, hasConflict = True\<rparr>)"

text \<open>The specification's words for the fallback, to compare the loop with: the number
  of leading lines of the old generated text that the live text still matches (line by
  line, compared after trimming), and the text that follows those lines.\<close>

definition matching_lines :: "string \<Rightarrow> string \<Rightarrow> nat" where
  "matching_lines oldGenerated fullCode =
     length (takeWhile (\<lambda>(g, f). trim g = trim f)
               (zip (split_lines oldGenerated) (split_lines fullCode)))"

definition text_after_match :: "string \<Rightarrow> string \<Rightarrow> string" where
  "text_after_match oldGenerated fullCode =
     join_lines (drop (matching_lines oldGenerated fullCode) (split_lines fullCode))"

section \<open>coordinates.js: scaling display points to the remote frame\<close>

text \<open>
  JavaScript numbers are modelled exactly: a client coordinate and the canvas rectangle
  are rationals, the remote frame size and the result are integers. \<open>Math.round\<close> rounds
  to the nearest integer, a tie towards plus infinity. The rectangle of a mounted canvas
  has a positive width and height; for a zero size the JavaScript arithmetic gives an
  infinity or NaN, which the model does not represent.
\<close>

definition Math_round :: "rat \<Rightarrow> int" where
  "Math_round v = \<lfloor>v + 1 / 2\<rfloor>"

record canvas_rect =
  rect_left :: rat
  rect_top :: rat
  rect_width :: rat
  rect_height :: rat

record point =
  pt_x :: int
  pt_y :: int

definition scaleCoordinates :: "rat \<Rightarrow> rat \<Rightarrow> canvas_rect \<Rightarrow> int \<Rightarrow> int \<Rightarrow> point" where
  "scaleCoordinates clientX clientY rect remoteWidth remoteHeight =
     (let canvasX = clientX - rect_left rect;
          canvasY = clientY - rect_top rect;
          canvasWidth = rect_width rect;
          canvasHeight = rect_height rect;
          remoteX = Math_round (canvasX * (of_int remoteWidth / canvasWidth));
          remoteY = Math_round (canvasY * (of_int remoteHeight / canvasHeight))
      in \<lparr>pt_x = max 0 (min remoteX (remoteWidth - 1)),
          pt_y = max 0 (min remoteY (remoteHeight - 1))\<rparr>)"

section \<open>codeValidation.js: conflicts between generated and manual code\<close>

record conflict =
  conflict_type :: string
  message :: string

record conflict_report =
  hasConflicts :: bool
  conflicts :: "conflict list"

text \<open>The eight regular expressions of \<open>vncPatterns\<close> are literal texts (every special
  character in them is escaped), so \<open>pattern.test(manualCode)\<close> is a search for that
  text.\<close>

definition vncPatterns :: "string list" where
  "vncPatterns =
     [''client.click('', ''client.type('', ''client.press('', ''client.wait('',
      ''vnc.click('', ''vnc.type('', ''vnc.press('', ''vnc.wait('']"

definition isImportLine :: "string \<Rightarrow> bool" where
  "isImportLine l = (startsWith (trim l) ''import'' \<or> startsWith (trim l) ''from'')"

text \<open>\<open>manualImport.split(' ')[1]\<close> as the argument of \<open>includes\<close>: a missing second
  piece is \<open>undefined\<close>, which \<open>includes\<close> converts to the text \<open>undefined\<close>.\<close>

definition importTarget :: "string \<Rightarrow> string" where
  "importTarget manualImport =
     (case split_on CHR '' '' manualImport of
        _ # target # _ \<Rightarrow> target
      | _ \<Rightarrow> ''undefined'')"

definition duplicateImports :: "string list \<Rightarrow> string list \<Rightarrow> conflict list" where
  "duplicateImports importLines manualImportLines =
     concat (map (\<lambda>manualImport.
        if list_ex (\<lambda>imp. str_includes imp (importTarget manualImport)) importLines
        then [\<lparr>conflict_type = ''duplicate-import'',
               message = ''Duplicate import detected: '' @ trim manualImport\<rparr>]
        else []) manualImportLines)"

definition detectCodeConflicts :: "string \<Rightarrow> string \<Rightarrow> conflict_report" where
  "detectCodeConflicts generatedCode manualCode =
     (if manualCode = [] then \<lparr>hasConflicts = False, conflicts = []\<rparr>
      else
        let generatedLines = split_lines generatedCode;
            manualLines = split_lines manualCode;
            mixed =
              (if list_ex (\<lambda>pattern. str_includes manualCode pattern) vncPatterns
               then [\<lparr>conflict_type = ''mixed-api'',
                      message = ''Manual code uses VNC API - ensure consistency with generated code''\<rparr>]
               else []);
            importLines = filter isImportLine generatedLines;
            manualImportLines = filter isImportLine manualLines;
            duplicates = duplicateImports importLines manualImportLines;
            redefined =
              (if str_includes manualCode ''def run(''
               then [\<lparr>conflict_type = ''redefine-function'',
                      message = ''Manual code redefines run() function - this will override generated code''\<rparr>]
               else []);
            found = mixed @ duplicates @ redefined
        in \<lparr>hasConflicts = (length found > 0), conflicts = found\<rparr>)"


section \<open>Numbers as text\<close>

text \<open>
  Template literals turn numbers into decimal text. Coordinates, sizes and click counts
  are integers. Durations in seconds (\<open>delay_before\<close>, \<open>timeout\<close>, \<open>duration\<close>) are the
  numbers with at most one decimal digit that the recorder produces
  (\<open>Math.round(ms / 100) / 10\<close>); the model holds them as a count of tenths of a second.
  A field that is absent (\<open>undefined\<close>) is \<open>None\<close> and prints as \<open>undefined\<close>.
\<close>

definition digit_char :: "nat \<Rightarrow> char" where
  "digit_char d = char_of (48 + d)"

function show_nat :: "nat \<Rightarrow> string" where
  "show_nat n = (if n < 10 then [digit_char n] else show_nat (n div 10) @ [digit_char (n mod 10)])"
  by pat_completeness auto
termination
  by (relation "measure id") auto

declare show_nat.simps [simp del]

definition show_int :: "int \<Rightarrow> string" where
  "show_int i = (if i < 0 then CHR ''-'' # show_nat (nat (- i)) else show_nat (nat i))"

definition show_tenths :: "int \<Rightarrow> string" where
  "show_tenths t =
     (let a = nat \<bar>t\<bar>;
          whole = show_nat (a div 10);
          frac = (if a mod 10 = 0 then [] else CHR ''.'' # [digit_char (a mod 10)])
      in (if t < 0 then ''-'' else []) @ whole @ frac)"

definition show_opt_int :: "int option \<Rightarrow> string" where
  "show_opt_int v = (case v of None \<Rightarrow> ''undefined'' | Some i \<Rightarrow> show_int i)"

definition show_opt_string :: "string option \<Rightarrow> string" where
  "show_opt_string v = (case v of None \<Rightarrow> ''undefined'' | Some t \<Rightarrow> t)"

section \<open>The Step record\<close>

text \<open>
  One object shape serves the stored Steps that the synthesizer reads and the
  \<open>stepData\<close> objects that the recorder emits. Every field but the type and the order
  may be absent.
\<close>

record region =
  region_x :: int
  region_y :: int
  region_width :: int
  region_height :: int

record step =
  s_type :: string
  s_order :: int
  s_x :: "int option"
  s_y :: "int option"
  s_end_x :: "int option"
  s_end_y :: "int option"
  s_width :: "int option"
  s_height :: "int option"
  s_text :: "string option"
  s_keys :: "string list option"
  s_template :: "string option"
  s_template_data :: "string option"
  s_smartTemplate :: "string option"
  s_originalType :: "string option"
  s_timeout :: "int option"
  s_duration :: "int option"
  s_region :: "region option"
  s_case_sensitive :: bool
  s_delay_before :: "int option"
  s_timestamp :: "int option"
  s_description :: "string option"
  s_direction :: "string option"
  s_clicks :: "int option"

definition blank_step :: step where
  "blank_step =
     \<lparr>s_type = [], s_order = 0, s_x = None, s_y = None, s_end_x = None, s_end_y = None,
      s_width = None, s_height = None, s_text = None, s_keys = None, s_template = None,
      s_template_data = None, s_smartTemplate = None, s_originalType = None,
      s_timeout = None, s_duration = None, s_region = None, s_case_sensitive = False,
      s_delay_before = None, s_timestamp = None, s_description = None,
      s_direction = None, s_clicks = None\<rparr>"

text \<open>Truthiness of an optional text: absent and empty are both falsy.\<close>

definition truthy :: "string option \<Rightarrow> bool" where
  "truthy v = (case v of None \<Rightarrow> False | Some t \<Rightarrow> t \<noteq> [])"

section \<open>codeGenerator.js: Steps to Python source\<close>

text \<open>\<open>text.replace(/"/g, '\\"')\<close>: a backslash goes in front of every double quote.\<close>

definition escape_quotes :: "string \<Rightarrow> string" where
  "escape_quotes t = concat (map (\<lambda>c. if c = CHR 0x22 then [CHR 0x5C, CHR 0x22] else [c]) t)"

text \<open>\<open>toUpperCase\<close> on the letters \<open>a\<close> to \<open>z\<close>; key names are ASCII words.\<close>

definition upper_char :: "char \<Rightarrow> char" where
  "upper_char c =
     (let n = (of_char c :: nat) in if 97 \<le> n \<and> n \<le> 122 then char_of (n - 32) else c)"

definition toUpperCase :: "string \<Rightarrow> string" where
  "toUpperCase t = map upper_char t"

definition keysList :: "string list \<Rightarrow> string" where
  "keysList ks = join_with '', '' (map (\<lambda>k. ''Keys.'' @ toUpperCase k) ks)"

text \<open>The hint argument of the three click shapes: present when both coordinates
  are.\<close>

definition clickHintArg :: "step \<Rightarrow> string" where
  "clickHintArg st =
     (case (s_x st, s_y st) of
        (Some vx, Some vy) \<Rightarrow> '', hint=('' @ show_int vx @ '', '' @ show_int vy @ '')''
      | _ \<Rightarrow> [])"

definition clickCode :: "string \<Rightarrow> step \<Rightarrow> string" where
  "clickCode fname st =
     (if truthy (s_template st) then
        ''vnc.'' @ fname @ ''('' @ [CHR 0x22] @ show_opt_string (s_template st) @ [CHR 0x22]
          @ '', timeout=30.0'' @ clickHintArg st @ '')''
      else ''vnc.'' @ fname @ ''('' @ show_opt_int (s_x st) @ '', '' @ show_opt_int (s_y st) @ '')'')"

definition regionArg :: "region \<Rightarrow> string" where
  "regionArg r =
     '', region=('' @ show_int (region_x r) @ '', '' @ show_int (region_y r) @ '', ''
       @ show_int (region_width r) @ '', '' @ show_int (region_height r) @ '')''"

text \<open>\<open>step.timeout || d\<close>: an absent or zero timeout gives the default.\<close>

definition tenths_or :: "int option \<Rightarrow> int \<Rightarrow> int" where
  "tenths_or v d = (case v of None \<Rightarrow> d | Some t \<Rightarrow> if t = 0 then d else t)"

text \<open>\<open>stepToCode(step)\<close>: the \<open>switch\<close> on the type, in the source's order; \<open>null\<close> is
  \<open>None\<close>.\<close>

definition stepToCode :: "step \<Rightarrow> string option" where
  "stepToCode st =
     (if s_type st = ''click'' then Some (clickCode ''click'' st)
      else if s_type st = ''double_click'' then Some (clickCode ''double_click'' st)
      else if s_type st = ''right_click'' then Some (clickCode ''right_click'' st)
      else if s_type st = ''type'' then
        (let txt = escape_quotes (case s_text st of None \<Rightarrow> [] | Some t \<Rightarrow> t);
             keysArg = (case s_keys st of
                          None \<Rightarrow> []
                        | Some ks \<Rightarrow> if length ks > 0 then '', ['' @ keysList ks @ '']'' else [])
         in Some (''vnc.type('' @ [CHR 0x22] @ txt @ [CHR 0x22] @ keysArg @ '')''))
      else if s_type st = ''key_press'' then
        (case s_keys st of
           None \<Rightarrow> None
         | Some ks \<Rightarrow> if length ks > 0 then Some (''vnc.press('' @ keysList ks @ '')'') else None)
      else if s_type st = ''key_combo'' then
        (case s_keys st of
           None \<Rightarrow> None
         | Some ks \<Rightarrow> if length ks > 0 then Some (''vnc.key_combo('' @ keysList ks @ '')'') else None)
      else if s_type st = ''wait_for_image'' then
        (let (regArg, hintArg) =
               (case s_region st of
                  Some r \<Rightarrow>
                    (let hintX = Math_round (of_int (region_x r) + of_int (region_width r) / 2);
                         hintY = Math_round (of_int (region_y r) + of_int (region_height r) / 2)
                     in (regionArg r, '', hint=('' @ show_int hintX @ '', '' @ show_int hintY @ '')''))
                | None \<Rightarrow> ([], clickHintArg st))
         in Some (''vnc.wait_for_image('' @ [CHR 0x22] @ show_opt_string (s_template st) @ [CHR 0x22]
                    @ '', timeout='' @ show_tenths (tenths_or (s_timeout st) 300)
                    @ regArg @ hintArg @ '')''))
      else if s_type st = ''wait_for_text'' then
        (let txt = escape_quotes (case s_text st of None \<Rightarrow> [] | Some t \<Rightarrow> t);
             regArg = (case s_region st of Some r \<Rightarrow> regionArg r | None \<Rightarrow> []);
             caseArg = (if s_case_sensitive st then '', case_sensitive=true'' else [])
         in Some (''vnc.wait_for_text('' @ [CHR 0x22] @ txt @ [CHR 0x22]
                    @ '', timeout='' @ show_tenths (tenths_or (s_timeout st) 300)
                    @ regArg @ caseArg @ '')''))
      else if s_type st = ''wait'' then
        Some (''vnc.wait('' @ show_tenths (tenths_or (s_duration st) 10) @ '')'')
      else if s_type st = ''screenshot'' then
        Some (''vnc.save_screenshot('' @ [CHR 0x22] @ ''screenshot.png'' @ [CHR 0x22] @ '')'')
      else if s_type st = ''drag'' then
        Some (''vnc.drag('' @ show_opt_int (s_x st) @ '', '' @ show_opt_int (s_y st) @ '', ''
                @ show_opt_int (s_end_x st) @ '', '' @ show_opt_int (s_end_y st) @ '')'')
      else None)"

text \<open>The lines one Step contributes to the entry function: the wait for a recorded
  delay above 0.1 s, then, if the Step has a statement, its comment and the statement.\<close>

definition stepLines :: "step \<Rightarrow> string list" where
  "stepLines st =
     (case s_delay_before st of
        Some d \<Rightarrow> if d > 1 then [''    vnc.wait('' @ show_tenths d @ '')''] else []
      | None \<Rightarrow> [])
     @ (case stepToCode st of
          None \<Rightarrow> []
        | Some codeLine \<Rightarrow>
            (if truthy (s_description st)
             then [''    # '' @ show_opt_string (s_description st)] else [])
            @ [''    '' @ codeLine])"

definition headerLines :: "string \<Rightarrow> string \<Rightarrow> string \<Rightarrow> string list" where
  "headerLines nowISO scriptName description =
     [[CHR 0x22, CHR 0x22, CHR 0x22],
      ''AutoVNC Script: '' @ scriptName,
      ''Generated: '' @ nowISO,
      [],
      (if description = [] then ''No description'' else description),
      [CHR 0x22, CHR 0x22, CHR 0x22],
      [],
      ''from autovnc import Keys'',
      [],
      [],
      ''def run(vnc):'',
      ''    '' @ [CHR 0x22, CHR 0x22, CHR 0x22] @ ''Execute the automation script.''
        @ [CHR 0x22, CHR 0x22, CHR 0x22]]"

definition harnessLines :: "string list" where
  "harnessLines =
     [[],
      ''if __name__ == '' @ [CHR 0x22] @ ''__main__'' @ [CHR 0x22] @ '':'',
      ''    from autovnc import VNCClient, ExecutionContext'',
      ''    import os'',
      [],
      ''    # Connection configuration'',
      ''    HOST = os.environ.get('' @ [CHR 0x22] @ ''VNC_HOST'' @ [CHR 0x22] @ '', ''
        @ [CHR 0x22] @ ''localhost'' @ [CHR 0x22] @ '')'',
      ''    PORT = int(os.environ.get('' @ [CHR 0x22] @ ''VNC_PORT'' @ [CHR 0x22] @ '', 5900))'',
      ''    PASSWORD = os.environ.get('' @ [CHR 0x22] @ ''VNC_PASSWORD'' @ [CHR 0x22] @ '', None)'',
      [],
      ''    client = VNCClient(HOST, PORT, password=PASSWORD)'',
      ''    try:'',
      ''        client.connect()'',
      ''        ctx = ExecutionContext(client)'',
      ''        ctx.wait(2) # Wait for connection to stabilize'',
      ''        run(ctx)'',
      ''    finally:'',
      ''        # Only disconnect if running in headless mode'',
      ''        if os.environ.get('' @ [CHR 0x22] @ ''AUTOVNC_HEADLESS'' @ [CHR 0x22] @ '', ''
        @ [CHR 0x22] @ ''false'' @ [CHR 0x22] @ '').lower() == '' @ [CHR 0x22] @ ''true''
        @ [CHR 0x22] @ '':'',
      ''            client.disconnect()'']"

text \<open>
  \<open>generateCode(steps, scriptName, description)\<close>. The header's third line holds
  \<open>new Date().toISOString()\<close>: the function reads the clock, so the model takes the
  clock's reading at the call, already rendered, as the argument \<open>nowISO\<close>. The sort by
  \<open>order\<close> is stable.
\<close>

definition bodyLines :: "step list \<Rightarrow> string list" where
  "bodyLines steps =
     (if steps = [] then [''    pass'']
      else
        let sortedSteps = sort_key s_order steps
        in concat (map stepLines sortedSteps))"

definition generateLines :: "string \<Rightarrow> step list \<Rightarrow> string \<Rightarrow> string \<Rightarrow> string list" where
  "generateLines nowISO steps scriptName description =
     headerLines nowISO scriptName description @ bodyLines steps @ harnessLines"

definition generateCode :: "string \<Rightarrow> step list \<Rightarrow> string \<Rightarrow> string \<Rightarrow> string" where
  "generateCode nowISO steps scriptName description =
     join_lines (generateLines nowISO steps scriptName description)"

section \<open>VNCViewer.jsx: the recorder's pointer and wheel handlers\<close>

text \<open>
  The props and the React state that stay fixed while a gesture is handled form the
  environment; the three refs (\<open>dragDataRef\<close>, \<open>clickTimeoutRef\<close>, \<open>lastActionTimeRef\<close>),
  the start of a rectangle selection, and the calls made to the two callbacks \<open>onStep\<close>
  and \<open>onInteraction\<close> form the state. Every handler takes the reading of \<open>Date.now()\<close>
  (milliseconds) that it would make. A pending \<open>setTimeout(commitAction, 250)\<close> is held as
  the time it falls due together with the \<open>stepData\<close> its callback commits;
  \<open>clearTimeout\<close> removes it.
\<close>

record mouse_event =
  e_clientX :: rat
  e_clientY :: rat
  e_button :: int
  e_detail :: int
  e_snapshot :: "string option"

record wheel_event =
  w_clientX :: rat
  w_clientY :: rat
  w_deltaY :: rat

record viewer_env =
  isRecording :: bool
  isPaused :: bool
  isSmartRecord :: bool
  isVerifyMode :: bool
  isVerifyTextMode :: bool
  hasOnStep :: bool
  hasOnInteraction :: bool
  canvas :: "canvas_rect option"
  screenWidth :: int
  screenHeight :: int

record drag_data =
  startX :: int
  startY :: int
  clientStartX :: rat
  clientStartY :: rat
  isDragging :: bool
  dd_button :: int
  dd_detail :: int

record viewer_state =
  dragData :: "drag_data option"
  clickTimeout :: "(int \<times> step) option"
  lastActionTime :: "int option"
  selectionStart :: "(rat \<times> rat) option"
  stepLog :: "step list"
  interactionLog :: "step list"

datatype js_error = TypeError

text \<open>\<open>delay_before = Math.round((now - last) / 100) / 10\<close>, in tenths of a second; zero
  when no action came before.\<close>

definition delayBefore :: "int \<Rightarrow> int option \<Rightarrow> int" where
  "delayBefore now lastAction =
     (case lastAction of None \<Rightarrow> 0 | Some t \<Rightarrow> Math_round (of_int (now - t) / 100))"

text \<open>The closure \<open>commitAction\<close>: \<open>onStep\<close> only while recording, \<open>onInteraction\<close> whenever
  it is given, and the timer slot is cleared.\<close>

definition commitAction :: "viewer_env \<Rightarrow> step \<Rightarrow> viewer_state \<Rightarrow> viewer_state" where
  "commitAction env stepData s =
     s\<lparr>stepLog := (if isRecording env \<and> hasOnStep env then stepLog s @ [stepData] else stepLog s),
       interactionLog :=
         (if hasOnInteraction env then interactionLog s @ [stepData] else interactionLog s),
       clickTimeout := None\<rparr>"

definition clickKind :: "int \<Rightarrow> int \<Rightarrow> string" where
  "clickKind btn det =
     (if btn = 2 then ''right_click'' else if det = 2 then ''double_click'' else ''click'')"

text \<open>The \<open>stepData\<close> object of \<open>processMouseAction\<close>, and its rewrite by the smart
  record branch. The smart capture draws on a scratch canvas inside \<open>try\<close>; the event
  carries what that capture yields, \<open>None\<close> when it throws, in which case the plain click
  data stays.\<close>

definition clickStepData :: "string \<Rightarrow> point \<Rightarrow> int \<Rightarrow> int \<Rightarrow> step" where
  "clickStepData kind coords now delay_before =
     blank_step
       \<lparr>s_type := kind,
        s_x := Some (pt_x coords), s_y := Some (pt_y coords),
        s_description := Some (''Click at ('' @ show_int (pt_x coords) @ '', ''
                                 @ show_int (pt_y coords) @ '')''),
        s_timestamp := Some now, s_delay_before := Some delay_before\<rparr>"

definition smartRecord :: "viewer_env \<Rightarrow> mouse_event \<Rightarrow> string \<Rightarrow> step \<Rightarrow> step" where
  "smartRecord env e kind stepData =
     (if isRecording env \<and> isSmartRecord env then
        (case e_snapshot e of
           Some img \<Rightarrow> stepData\<lparr>s_smartTemplate := Some img, s_type := ''smart_click'',
                                 s_originalType := Some kind\<rparr>
         | None \<Rightarrow> stepData)
      else stepData)"

text \<open>\<open>processMouseAction(e, forcedButton, forcedDetail)\<close>: a pending click timer is
  cleared first; a plain click (smart or not) is buffered for 250 ms, a right click or
  a double click is committed at once.\<close>

definition processMouseAction ::
  "viewer_env \<Rightarrow> int \<Rightarrow> mouse_event \<Rightarrow> int option \<Rightarrow> int option \<Rightarrow> viewer_state \<Rightarrow> viewer_state"
where
  "processMouseAction env now e forcedButton forcedDetail s =
     (case canvas env of
        None \<Rightarrow> s
      | Some rect \<Rightarrow>
          let btn = (case forcedButton of Some b \<Rightarrow> b | None \<Rightarrow> e_button e);
              det = (case forcedDetail of Some d \<Rightarrow> d | None \<Rightarrow> e_detail e);
              coords = scaleCoordinates (e_clientX e) (e_clientY e) rect
                         (screenWidth env) (screenHeight env);
              delay_before = delayBefore now (lastActionTime s);
              s1 = s\<lparr>lastActionTime := Some now, clickTimeout := None\<rparr>;
              stepData = smartRecord env e (clickKind btn det)
                           (clickStepData (clickKind btn det) coords now delay_before)
          in if s_type stepData = ''click''
                \<or> (s_type stepData = ''smart_click'' \<and> s_originalType stepData = Some ''click'')
             then s1\<lparr>clickTimeout := Some (now + 250, stepData)\<rparr>
             else commitAction env stepData s1)"

definition handleMouseDown ::
  "viewer_env \<Rightarrow> int \<Rightarrow> mouse_event \<Rightarrow> viewer_state \<Rightarrow> viewer_state"
where
  "handleMouseDown env now e s =
     (if \<not> isRecording env \<and> \<not> hasOnInteraction env then s
      else if isRecording env \<and> isPaused env then s
      else
        (case canvas env of
           None \<Rightarrow> s
         | Some rect \<Rightarrow>
             let mouseX = e_clientX e - rect_left rect;
                 mouseY = e_clientY e - rect_top rect
             in if isRecording env \<and> (isVerifyMode env \<or> isVerifyTextMode env)
                then s\<lparr>selectionStart := Some (mouseX, mouseY)\<rparr>
                else if isRecording env \<and> e_button e = 0 then
                  let coords = scaleCoordinates (e_clientX e) (e_clientY e) rect
                                 (screenWidth env) (screenHeight env)
                  in s\<lparr>dragData := Some
                        \<lparr>startX = pt_x coords, startY = pt_y coords,
                         clientStartX = e_clientX e, clientStartY = e_clientY e,
                         isDragging = False, dd_button = e_button e, dd_detail = e_detail e\<rparr>\<rparr>
                else processMouseAction env now e None None s))"

definition handleMouseMoveCapture :: "mouse_event \<Rightarrow> viewer_state \<Rightarrow> viewer_state" where
  "handleMouseMoveCapture e s =
     (case dragData s of
        None \<Rightarrow> s
      | Some d \<Rightarrow>
          if isDragging d then s
          else
            let dx = \<bar>e_clientX e - clientStartX d\<bar>;
                dy = \<bar>e_clientY e - clientStartY d\<bar>
            in if dx > 10 \<or> dy > 10 then s\<lparr>dragData := Some (d\<lparr>isDragging := True\<rparr>)\<rparr> else s)"

text \<open>\<open>handleMouseUpCapture\<close>. While dragging it calls \<open>scaleCoordinates\<close> with the canvas
  unchecked: a missing canvas raises a TypeError before anything is changed.\<close>

definition dragStep :: "drag_data \<Rightarrow> point \<Rightarrow> int \<Rightarrow> int \<Rightarrow> step" where
  "dragStep d coords now delay_before =
     blank_step
       \<lparr>s_type := ''drag'',
        s_x := Some (startX d), s_y := Some (startY d),
        s_end_x := Some (pt_x coords), s_end_y := Some (pt_y coords),
        s_description := Some (''Drag from ('' @ show_int (startX d) @ '', ''
                                 @ show_int (startY d) @ '') to ('' @ show_int (pt_x coords)
                                 @ '', '' @ show_int (pt_y coords) @ '')''),
        s_timestamp := Some now, s_delay_before := Some delay_before\<rparr>"

definition handleMouseUpCapture ::
  "viewer_env \<Rightarrow> int \<Rightarrow> mouse_event \<Rightarrow> viewer_state \<Rightarrow> js_error + viewer_state"
where
  "handleMouseUpCapture env now e s =
     (case dragData s of
        None \<Rightarrow> Inr s
      | Some d \<Rightarrow>
          if isDragging d then
            (case canvas env of
               None \<Rightarrow> Inl TypeError
             | Some rect \<Rightarrow>
                 let coords = scaleCoordinates (e_clientX e) (e_clientY e) rect
                                (screenWidth env) (screenHeight env);
                     delay_before = delayBefore now (lastActionTime s);
                     stepData = dragStep d coords now delay_before
                 in Inr (s\<lparr>lastActionTime := Some now,
                            stepLog := (if hasOnStep env then stepLog s @ [stepData] else stepLog s),
                            interactionLog :=
                              (if hasOnInteraction env then interactionLog s @ [stepData]
                               else interactionLog s),
                            dragData := None\<rparr>))
          else
            Inr ((processMouseAction env now e (Some (dd_button d)) (Some (dd_detail d)) s)
                   \<lparr>dragData := None\<rparr>))"

text \<open>\<open>handleWheelCapture\<close>: every tick is committed at once.\<close>

definition handleWheelCapture ::
  "viewer_env \<Rightarrow> int \<Rightarrow> wheel_event \<Rightarrow> viewer_state \<Rightarrow> viewer_state"
where
  "handleWheelCapture env now w s =
     (if \<not> isRecording env \<or> isPaused env \<or> isVerifyMode env \<or> isVerifyTextMode env then s
      else
        (case canvas env of
           None \<Rightarrow> s
         | Some rect \<Rightarrow>
             let coords = scaleCoordinates (w_clientX w) (w_clientY w) rect
                            (screenWidth env) (screenHeight env);
                 delay_before = delayBefore now (lastActionTime s);
                 dir = (if w_deltaY w > 0 then ''down'' else ''up'');
                 stepData = blank_step
                   \<lparr>s_type := ''scroll'', s_direction := Some dir, s_clicks := Some 1,
                    s_x := Some (pt_x coords), s_y := Some (pt_y coords),
                    s_description := Some (''Scroll '' @ dir @ '' at ('' @ show_int (pt_x coords)
                                             @ '', '' @ show_int (pt_y coords) @ '')''),
                    s_timestamp := Some now, s_delay_before := Some delay_before\<rparr>
             in s\<lparr>lastActionTime := Some now,
                  stepLog := (if hasOnStep env then stepLog s @ [stepData] else stepLog s),
                  interactionLog :=
                    (if hasOnInteraction env then interactionLog s @ [stepData]
                     else interactionLog s)\<rparr>))"

text \<open>
  The event loop. Events arrive with their time. Before an event is handled, a click
  timer that has fallen due runs its callback; an exception leaves the state as the
  handler found it. When no further event comes, the pending timer runs (\<open>settle\<close>).
\<close>

datatype viewer_event =
  MouseDown mouse_event
| MouseMove mouse_event
| MouseUp mouse_event
| Wheel wheel_event

definition fireTimer :: "viewer_env \<Rightarrow> viewer_state \<Rightarrow> viewer_state" where
  "fireTimer env s =
     (case clickTimeout s of None \<Rightarrow> s | Some (due, stepData) \<Rightarrow> commitAction env stepData s)"

definition advance :: "viewer_env \<Rightarrow> int \<Rightarrow> viewer_state \<Rightarrow> viewer_state" where
  "advance env now s =
     (case clickTimeout s of
        None \<Rightarrow> s
      | Some (due, stepData) \<Rightarrow> if due \<le> now then commitAction env stepData s else s)"

definition dispatch :: "viewer_env \<Rightarrow> int \<Rightarrow> viewer_event \<Rightarrow> viewer_state \<Rightarrow> viewer_state" where
  "dispatch env now ev s =
     (case ev of
        MouseDown e \<Rightarrow> handleMouseDown env now e s
      | MouseMove e \<Rightarrow> handleMouseMoveCapture e s
      | MouseUp e \<Rightarrow> (case handleMouseUpCapture env now e s of Inl err \<Rightarrow> s | Inr s' \<Rightarrow> s')
      | Wheel w \<Rightarrow> handleWheelCapture env now w s)"

fun run_events :: "viewer_env \<Rightarrow> (int \<times> viewer_event) list \<Rightarrow> viewer_state \<Rightarrow> viewer_state" where
  "run_events env [] s = s"
| "run_events env ((now, ev) # evs) s = run_events env evs (dispatch env now ev (advance env now s))"

definition settle :: "viewer_env \<Rightarrow> viewer_state \<Rightarrow> viewer_state" where
  "settle env s = fireTimer env s"

text \<open>The component when a recording has just started, at time 0: no gesture in
  progress, no timer, no action yet, the last action time set to the start; and a
  recording session on the default 1024 by 768 screen shown at its own size.\<close>

definition initial_viewer_state :: viewer_state where
  "initial_viewer_state =
     \<lparr>dragData = None, clickTimeout = None, lastActionTime = Some 0, selectionStart = None,
      stepLog = [], interactionLog = []\<rparr>"

definition recording_env :: "bool \<Rightarrow> viewer_env" where
  "recording_env smart =
     \<lparr>isRecording = True, isPaused = False, isSmartRecord = smart, isVerifyMode = False,
      isVerifyTextMode = False, hasOnStep = True, hasOnInteraction = True,
      canvas = Some \<lparr>rect_left = 0, rect_top = 0, rect_width = 1024, rect_height = 768\<rparr>,
      screenWidth = 1024, screenHeight = 768\<rparr>"

definition mouse_at :: "rat \<Rightarrow> rat \<Rightarrow> int \<Rightarrow> int \<Rightarrow> mouse_event" where
  "mouse_at px py btn det =
     \<lparr>e_clientX = px, e_clientY = py, e_button = btn, e_detail = det, e_snapshot = None\<rparr>"

text \<open>What an emitted action stands for: a smart click stands for its original type.\<close>

definition actionKind :: "step \<Rightarrow> string" where
  "actionKind st =
     (if s_type st = ''smart_click'' then show_opt_string (s_originalType st) else s_type st)"

section \<open>CodeEditor.jsx: live insertion into the entry function\<close>

text \<open>
  The Monaco editor is a library the component calls. Its text model is a string with
  line feeds between the lines; a position is a line number and a column, both from 1.
  \<open>new Range(...)\<close> swaps its ends when they are out of order, and an edit first
  validates its range: a line number or column out of the text is moved to the nearest
  valid one. \<open>executeEdits\<close> with one operation replaces the text of the range.
\<close>

record editor_range =
  startLineNumber :: nat
  startColumn :: nat
  endLineNumber :: nat
  endColumn :: nat

definition Range :: "nat \<Rightarrow> nat \<Rightarrow> nat \<Rightarrow> nat \<Rightarrow> editor_range" where
  "Range sl sc el ec =
     (if sl > el \<or> (sl = el \<and> sc > ec)
      then \<lparr>startLineNumber = el, startColumn = ec, endLineNumber = sl, endColumn = sc\<rparr>
      else \<lparr>startLineNumber = sl, startColumn = sc, endLineNumber = el, endColumn = ec\<rparr>)"

definition getLineContent :: "string list \<Rightarrow> nat \<Rightarrow> string" where
  "getLineContent ls n = ls ! (n - 1)"

definition validatePosition :: "string list \<Rightarrow> nat \<times> nat \<Rightarrow> nat \<times> nat" where
  "validatePosition ls pos =
     (let (l, c) = pos; lineCount = length ls in
      if l < 1 then (1, 1)
      else if l > lineCount then (lineCount, length (getLineContent ls lineCount) + 1)
      else if c < 1 then (l, 1)
      else if c > length (getLineContent ls l) + 1 then (l, length (getLineContent ls l) + 1)
      else (l, c))"

text \<open>The offset of a valid position: the lines before it, each with its line feed, and
  the columns before it.\<close>

definition offsetAt :: "string list \<Rightarrow> nat \<times> nat \<Rightarrow> nat" where
  "offsetAt ls pos =
     (let (l, c) = pos in
      (if l > 1 then length (join_lines (take (l - 1) ls)) + 1 else 0) + (c - 1))"

definition executeEdits :: "string \<Rightarrow> editor_range \<Rightarrow> string \<Rightarrow> string" where
  "executeEdits content rng insertText =
     (let ls = split_lines content;
          startOffset = offsetAt ls (validatePosition ls (startLineNumber rng, startColumn rng));
          endOffset = offsetAt ls (validatePosition ls (endLineNumber rng, endColumn rng))
      in take startOffset content @ insertText @ drop endOffset content)"

text \<open>The header pattern \<open>/^\s*def\s+run\s*\(/\<close>, read from the left: white space, \<open>def\<close>,
  at least one white space, \<open>run\<close>, white space, an opening parenthesis.\<close>

definition matchesDefRun :: "string \<Rightarrow> bool" where
  "matchesDefRun line =
     (let r1 = dropWhile is_space line in
      startsWith r1 ''def'' \<and>
      (let r2 = drop 3 r1 in
       r2 \<noteq> [] \<and> is_space (hd r2) \<and>
       (let r3 = dropWhile is_space r2 in
        startsWith r3 ''run'' \<and> startsWith (dropWhile is_space (drop 3 r3)) ''('')))"

text \<open>\<open>line.match(/^\s*/)[0].length\<close>.\<close>

definition indentLength :: "string \<Rightarrow> nat" where
  "indentLength line = length (takeWhile is_space line)"

text \<open>The first loop of \<open>findInsertionPosition\<close>: the 1-based number of the first line
  that matches the header pattern.\<close>

fun findRunFunctionLine :: "string list \<Rightarrow> nat \<Rightarrow> nat option" where
  "findRunFunctionLine [] i = None"
| "findRunFunctionLine (line # rest) i =
     (if matchesDefRun line then Some (i + 1) else findRunFunctionLine rest (i + 1))"

text \<open>The second loop, over the lines from index \<open>i\<close> on: it stops at the first line that
  is neither blank nor a comment and is indented no deeper than the header; it records
  the last line that is \<open>pass\<close> and the last line it accepted.\<close>

fun scanBlock :: "nat \<Rightarrow> string list \<Rightarrow> nat \<Rightarrow> nat option \<Rightarrow> nat \<Rightarrow> nat option \<times> nat" where
  "scanBlock baseIndentLength [] i passLine insertLine = (passLine, insertLine)"
| "scanBlock baseIndentLength (line # rest) i passLine insertLine =
     (if trim line \<noteq> [] \<and> \<not> startsWith (trim line) ''#''
         \<and> indentLength line \<le> baseIndentLength
      then (passLine, insertLine)
      else scanBlock baseIndentLength rest (i + 1)
             (if trim line = ''pass'' then Some (i + 1) else passLine) (i + 1))"

text \<open>The \<open>while\<close> loop that steps back over trailing blank lines.\<close>

function backtrack :: "string list \<Rightarrow> nat \<Rightarrow> nat \<Rightarrow> nat" where
  "backtrack ls runFunctionLine insertLine =
     (if insertLine > runFunctionLine \<and> trim (ls ! (insertLine - 1)) = []
      then backtrack ls runFunctionLine (insertLine - 1)
      else insertLine)"
  by pat_completeness auto
termination
  by (relation "measure (\<lambda>(ls, r, i). i)") auto

declare backtrack.simps [simp del]

record insertion_position =
  pos_lineNumber :: nat
  pos_column :: nat
  pos_indent :: string
  pos_replacePass :: bool
  pos_replaceLine :: nat

definition findInsertionPosition :: "string list \<Rightarrow> insertion_position option" where
  "findInsertionPosition ls =
     (case findRunFunctionLine ls 0 of
        None \<Rightarrow> None
      | Some runFunctionLine \<Rightarrow>
          let defLine = ls ! (runFunctionLine - 1);
              baseIndentLength = indentLength defLine;
              (passLine, scanned) =
                scanBlock baseIndentLength (drop runFunctionLine ls) runFunctionLine None
                  runFunctionLine;
              insertLine = backtrack ls runFunctionLine scanned
          in Some \<lparr>pos_lineNumber = insertLine, pos_column = 1, pos_indent = ''    '',
                   pos_replacePass = (passLine \<noteq> None),
                   pos_replaceLine = (case passLine of Some n \<Rightarrow> n | None \<Rightarrow> insertLine)\<rparr>)"

text \<open>The two ways a snippet is indented: when it replaces the placeholder, every
  line gets the indent except an empty first line; when it is appended, every line gets
  it except blank ones.\<close>

fun indentReplacing :: "string \<Rightarrow> string list \<Rightarrow> string list" where
  "indentReplacing ind [] = []"
| "indentReplacing ind (line # rest) =
     (if line = [] then [] else ind @ line) # map (\<lambda>l. ind @ l) rest"

definition indentAppending :: "string \<Rightarrow> string list \<Rightarrow> string list" where
  "indentAppending ind ls = map (\<lambda>line. if trim line = [] then [] else ind @ line) ls"

text \<open>The Monaco branch of \<open>insertCode(text, forceRunFunction)\<close>, on the model's text and
  the current selection; it gives the text after the edit.\<close>

definition insertCodeMonaco :: "string \<Rightarrow> editor_range \<Rightarrow> string \<Rightarrow> bool \<Rightarrow> string" where
  "insertCodeMonaco content sel snippet forceRunFunction =
     (let ls = split_lines content;
          shouldUseRunFunction =
            (forceRunFunction \<or> (startLineNumber sel = 1 \<and> startColumn sel = 1))
      in if \<not> shouldUseRunFunction then
           executeEdits content
             (Range (startLineNumber sel) (startColumn sel)
                (endLineNumber sel) (endColumn sel))
             (snippet @ [newline])
         else
           (case findInsertionPosition ls of
              Some pos \<Rightarrow>
                if pos_replacePass pos then
                  executeEdits content
                    (Range (pos_replaceLine pos) 1 (pos_replaceLine pos)
                       (length (getLineContent ls (pos_replaceLine pos)) + 1))
                    (join_lines (indentReplacing (pos_indent pos) (split_lines snippet)) @ [newline])
                else
                  executeEdits content
                    (Range (pos_lineNumber pos + 1) 1 (pos_lineNumber pos + 1) 1)
                    (join_lines (indentAppending (pos_indent pos) (split_lines snippet)) @ [newline])
            | None \<Rightarrow>
                let lineCount = length ls;
                    lastLineContent = getLineContent ls lineCount;
                    pre = (if trim lastLineContent = [] then [] else [newline, newline])
                in executeEdits content
                     (Range lineCount (length lastLineContent + 1) lineCount
                        (length lastLineContent + 1))
                     (pre @ snippet @ [newline])))"

text \<open>The editor a ref can hold: none yet, the Monaco editor (its text and selection),
  or the fallback textarea (its value and \<open>selectionStart\<close>). The textarea branch puts the
  snippet at the caret, or at the end when the caret is at the start of a non-empty
  value.\<close>

datatype editor = NoEditor | Monaco string editor_range | Textarea string nat

definition insertCode :: "editor \<Rightarrow> string \<Rightarrow> bool \<Rightarrow> editor" where
  "insertCode ed snippet forceRunFunction =
     (case ed of
        NoEditor \<Rightarrow> NoEditor
      | Monaco content sel \<Rightarrow>
          Monaco (insertCodeMonaco content sel snippet forceRunFunction) sel
      | Textarea content caret \<Rightarrow>
          let start = (if caret = 0 \<and> length content > 0 then length content else caret)
          in Textarea (take start content @ snippet @ [newline] @ drop start content) caret)"



section \<open>The application's handler of recorder interactions\<close>




























section \<open>Properties of the string primitives\<close>

lemma split_on_nonempty: "split_on c s \<noteq> []"
  by (induction s) (auto split: list.splits)

lemma split_on_append:
  "split_on c (s @ c # t) = split_on c s @ split_on c t"
proof (induction s)
  case Nil
  show ?case by simp
next
  case (Cons a s)
  obtain p ps where sp: "split_on c s = p # ps"
    using split_on_nonempty [of c s] by (cases "split_on c s") auto
  with Cons show ?case by simp
qed

lemma join_with_Cons:
  "rest \<noteq> [] \<Longrightarrow> join_with sep (piece # rest) = piece @ sep @ join_with sep rest"
  by (cases rest) auto

lemma join_split_on: "join_with [c] (split_on c s) = s"
proof (induction s)
  case Nil
  show ?case by simp
next
  case (Cons a s)
  obtain p ps where sp: "split_on c s = p # ps"
    using split_on_nonempty [of c s] by (cases "split_on c s") auto
  show ?case
  proof (cases "a = c")
    case True
    with Cons sp show ?thesis by simp
  next
    case False
    with Cons sp show ?thesis by (cases ps) auto
  qed
qed

lemma join_split_lines: "join_lines (split_lines s) = s"
  by (simp add: join_lines_def split_lines_def join_split_on)

section \<open>C1: two calls of the synthesizer\<close>

lemma join_lines_Cons: "rest \<noteq> [] \<Longrightarrow> join_lines (a # rest) = a @ [newline] @ join_lines rest"
  by (cases rest) (simp_all add: join_lines_def)

lemma harnessLines_nonempty: "harnessLines \<noteq> []"
  by (simp add: harnessLines_def)

lemma headerLines_split:
  "headerLines t n d =
     [CHR 0x22, CHR 0x22, CHR 0x22] # (''AutoVNC Script: '' @ n) # (''Generated: '' @ t)
       # drop 3 (headerLines [] n d)"
  by (simp add: headerLines_def)

lemma generateCode_header_split:
  "generateCode t S n d =
     ([CHR 0x22, CHR 0x22, CHR 0x22] @ [newline] @ (''AutoVNC Script: '' @ n) @ [newline]
       @ ''Generated: '') @ t
     @ ([newline] @ join_lines (drop 3 (headerLines [] n d) @ bodyLines S @ harnessLines))"
proof -
  have ne: "drop 3 (headerLines [] n d) @ bodyLines S @ harnessLines \<noteq> []"
    by (simp add: harnessLines_nonempty)
  have "generateLines t S n d =
          [CHR 0x22, CHR 0x22, CHR 0x22] # (''AutoVNC Script: '' @ n) # (''Generated: '' @ t)
            # (drop 3 (headerLines [] n d) @ bodyLines S @ harnessLines)"
    unfolding generateLines_def by (subst headerLines_split) simp
  then show ?thesis
    unfolding generateCode_def
    by (simp only: join_lines_Cons [OF ne] join_lines_Cons list.distinct not_False_eq_True
        append_assoc)
qed

text \<open>
  C1, as the code has it. The synthesizer writes the clock's reading into the header, so
  two calls on the same Step list, script name and description give line arrays that
  agree everywhere but in the third element, the \<open>Generated:\<close> line, and the two source
  texts are byte-identical exactly when the two calls read the same timestamp.
\<close>

theorem generateCode_clock_only:
  "generateLines t2 S n d = (generateLines t1 S n d)[2 := ''Generated: '' @ t2]
   \<and> (generateCode t1 S n d = generateCode t2 S n d \<longleftrightarrow> t1 = t2)"
proof
  show "generateLines t2 S n d = (generateLines t1 S n d)[2 := ''Generated: '' @ t2]"
    by (simp add: generateLines_def headerLines_def)
next
  show "generateCode t1 S n d = generateCode t2 S n d \<longleftrightarrow> t1 = t2"
    unfolding generateCode_header_split [of t1] generateCode_header_split [of t2]
    by (simp only: same_append_eq append_same_eq)
qed

theorem generateCode_clock_only_witness:
  "generateLines ''2024-01-01T00:00:00.001Z'' [] ''demo'' []
     = (generateLines ''2024-01-01T00:00:00.000Z'' [] ''demo'' [])
         [2 := ''Generated: 2024-01-01T00:00:00.001Z'']
   \<and> generateCode ''2024-01-01T00:00:00.000Z'' [] ''demo'' []
       \<noteq> generateCode ''2024-01-01T00:00:00.001Z'' [] ''demo'' []"
  using generateCode_clock_only
          [of "''2024-01-01T00:00:00.001Z''" "[]" "''demo''" "[]" "''2024-01-01T00:00:00.000Z''"]
        generateCode_clock_only
          [of "''2024-01-01T00:00:00.001Z''" "[]" "''demo''" "[]" "''2024-01-01T00:00:00.001Z''"]
  by simp

text \<open>
  The claim as written fails: two calls on the same empty Step list, name and description,
  one millisecond apart, give different source texts.
\<close>

theorem generateCode_not_idempotent_counterexample:
  "generateCode ''2024-01-01T00:00:00.000Z'' [] ''demo'' []
     \<noteq> generateCode ''2024-01-01T00:00:00.001Z'' [] ''demo'' []"
  unfolding generateCode_header_split [of "''2024-01-01T00:00:00.000Z''"]
    generateCode_header_split [of "''2024-01-01T00:00:00.001Z''"]
  by (simp only: same_append_eq append_same_eq) simp

section \<open>C2: scroll Steps in the synthesizer\<close>

text \<open>
  C2 asks for a \<open>scroll(direction, clicks)\<close> statement for every scroll Step. The
  \<open>switch\<close> of \<open>stepToCode\<close> has no \<open>scroll\<close> case: a scroll Step, as the recorder's wheel
  handler builds it (direction, one click, the pointer position, a description and a
  delay), falls to the default branch and gives \<open>null\<close>. The entry function then holds
  the wait for the Step's delay and nothing else, and no line of it mentions \<open>scroll(\<close>.
\<close>

theorem stepToCode_scroll_dropped:
  "stepToCode (blank_step\<lparr>s_type := ''scroll'', s_direction := Some ''down'',
       s_clicks := Some 1, s_x := Some 10, s_y := Some 20,
       s_description := Some ''Scroll down at (10, 20)'', s_delay_before := Some 5\<rparr>) = None
   \<and> bodyLines [blank_step\<lparr>s_type := ''scroll'', s_direction := Some ''down'',
       s_clicks := Some 1, s_x := Some 10, s_y := Some 20,
       s_description := Some ''Scroll down at (10, 20)'', s_delay_before := Some 5\<rparr>]
       = [''    vnc.wait(0.5)'']
   \<and> \<not> list_ex (\<lambda>l. str_includes l ''scroll('')
         (bodyLines [blank_step\<lparr>s_type := ''scroll'', s_direction := Some ''down'',
            s_clicks := Some 1, s_x := Some 10, s_y := Some 20,
            s_description := Some ''Scroll down at (10, 20)'', s_delay_before := Some 5\<rparr>])"
  by code_simp

section \<open>C3: the resynthesis merge\<close>

lemma startsWith_append: "startsWith (p @ s) p"
  by (induction p) auto

lemma startsWith_prefix: "startsWith s p \<longleftrightarrow> prefix p s"
  by (induction s p rule: startsWith.induct) auto

lemma match_loop_takeWhile:
  "match_loop g f i m =
     (let n = length (takeWhile (\<lambda>(a, b). trim a = trim b) (zip (drop i g) (drop i f)))
      in if n = 0 then m else i + n)"
proof (induction g f i m rule: match_loop.induct)
  case (1 g f i m)
  let ?P = "\<lambda>(a, b). trim a = trim b"
  have unfold: "match_loop g f i m =
     (if i < length g \<and> i < length f then
        (if trim (g ! i) = trim (f ! i) then match_loop g f (i + 1) (i + 1) else m)
      else m)"
    by (rule match_loop.simps)
  show ?case
  proof (cases "i < length g \<and> i < length f")
    case False
    then have "drop i g = [] \<or> drop i f = []" by auto
    then have "takeWhile ?P (zip (drop i g) (drop i f)) = []" by auto
    moreover from False unfold have "match_loop g f i m = m" by auto
    ultimately show ?thesis by simp
  next
    case True
    then have dg: "drop i g = g ! i # drop (Suc i) g" and df: "drop i f = f ! i # drop (Suc i) f"
      by (simp_all add: Cons_nth_drop_Suc)
    show ?thesis
    proof (cases "trim (g ! i) = trim (f ! i)")
      case False
      then have "takeWhile ?P (zip (drop i g) (drop i f)) = []" by (simp add: dg df)
      moreover from True False unfold have "match_loop g f i m = m" by auto
      ultimately show ?thesis by simp
    next
      case eq: True
      have tw: "takeWhile ?P (zip (drop i g) (drop i f))
                  = (g ! i, f ! i) # takeWhile ?P (zip (drop (Suc i) g) (drop (Suc i) f))"
        using eq by (simp add: dg df)
      from True eq unfold have "match_loop g f i m = match_loop g f (i + 1) (i + 1)" by auto
      with "1.IH" [OF True eq] show ?thesis
        by (simp add: tw Let_def)
    qed
  qed
qed

lemma match_loop_matching_lines:
  "match_loop (split_lines g) (split_lines f) 0 0 = matching_lines g f"
  by (simp add: match_loop_takeWhile matching_lines_def Let_def)

lemma trim_Nil: "trim [] = []" by (simp add: trim_def)

lemma extract_eq:
  "g \<noteq> [] \<Longrightarrow> extractManualCodeFallback g f = trim (text_after_match g f)"
proof (cases "f = []")
  case True
  assume "g \<noteq> []"
  have "text_after_match g [] = []"
    by (cases "matching_lines g []")
       (simp_all add: text_after_match_def split_lines_def join_lines_def)
  with True show ?thesis by (simp add: extractManualCodeFallback_def trim_Nil)
next
  case False
  assume "g \<noteq> []"
  with False show ?thesis
    by (simp add: extractManualCodeFallback_def text_after_match_def match_loop_matching_lines)
qed

text \<open>
  C3, as the code has it. If the live text is \<open>G1\<close>, a line feed and \<open>M\<close>, merging with the
  fresh text \<open>G2\<close> returns exactly \<open>G2\<close>, a line feed and \<open>M\<close>, with no conflict flag. If the
  live text does not start with \<open>G1\<close>, the result is flagged as a conflict and consists of
  \<open>G2\<close>, a line feed, and the text after the last matching line with the white space at
  its two ends trimmed away: the fallback keeps that text up to its leading and trailing
  white space, not verbatim.
\<close>

theorem mergeGeneratedAndManual_resynthesis:
  "mergeGeneratedAndManual G2 G1 (G1 @ [newline] @ M)
     = \<lparr>merged = G2 @ [newline] @ M, hasConflict = False\<rparr>
   \<and> (\<not> startsWith fullCode G1 \<longrightarrow>
        mergeGeneratedAndManual G2 G1 fullCode
          = \<lparr>merged = G2 @ [newline] @ trim (text_after_match G1 fullCode), hasConflict = True\<rparr>)"
proof (intro conjI impI)
  show "mergeGeneratedAndManual G2 G1 (G1 @ [newline] @ M)
     = \<lparr>merged = G2 @ [newline] @ M, hasConflict = False\<rparr>"
    by (simp add: mergeGeneratedAndManual_def startsWith_append)
next
  assume ns: "\<not> startsWith fullCode G1"
  then have "G1 \<noteq> []" by auto
  with ns show "mergeGeneratedAndManual G2 G1 fullCode
          = \<lparr>merged = G2 @ [newline] @ trim (text_after_match G1 fullCode), hasConflict = True\<rparr>"
    by (simp add: mergeGeneratedAndManual_def extract_eq)
qed

theorem mergeGeneratedAndManual_resynthesis_witness:
  "mergeGeneratedAndManual ''g'' ''a'' (''a'' @ [newline] @ ''m'')
     = \<lparr>merged = ''g'' @ [newline] @ ''m'', hasConflict = False\<rparr>
   \<and> mergeGeneratedAndManual ''g'' ''a\<newline>b'' ''a\<newline>  x\<newline>y''
     = \<lparr>merged = ''g\<newline>x\<newline>y'', hasConflict = True\<rparr>"
proof -
  have ns: "\<not> startsWith ''a\<newline>  x\<newline>y'' ''a\<newline>b''"
    by code_simp
  have tr: "trim (text_after_match ''a\<newline>b'' ''a\<newline>  x\<newline>y'') = ''x\<newline>y''"
    by code_simp
  have first: "mergeGeneratedAndManual ''g'' ''a'' (''a'' @ [newline] @ ''m'')
                 = \<lparr>merged = ''g'' @ [newline] @ ''m'', hasConflict = False\<rparr>"
    using mergeGeneratedAndManual_resynthesis [of "''g''" "''a''" "''m''" "[]"]
    by (rule conjunct1)
  have "mergeGeneratedAndManual ''g'' ''a\<newline>b'' ''a\<newline>  x\<newline>y''
          = \<lparr>merged = ''g'' @ [newline] @ trim (text_after_match ''a\<newline>b'' ''a\<newline>  x\<newline>y''),
             hasConflict = True\<rparr>"
    using mergeGeneratedAndManual_resynthesis
            [of "''g''" "''a\<newline>b''" "[]" "''a\<newline>  x\<newline>y''"] ns
    by blast
  then have second: "mergeGeneratedAndManual ''g'' ''a\<newline>b'' ''a\<newline>  x\<newline>y''
          = \<lparr>merged = ''g\<newline>x\<newline>y'', hasConflict = True\<rparr>"
    by (simp add: tr newline_def)
  from first second show ?thesis by (rule conjI)
qed

text \<open>
  The claim as written fails: with old generated text \<open>a\<close>, \<open>b\<close> (two lines) and live
  text \<open>a\<close>, \<open>  x\<close>, \<open>y\<close> (the second line edited and indented), the live text does not
  start with the old generated text, the text after the last matching line is
  \<open>  x\<close>, \<open>y\<close>, and the merge result \<open>g\<close>, \<open>x\<close>, \<open>y\<close> does not contain it: the
  indentation of its first line is gone.
\<close>

theorem mergeGeneratedAndManual_not_verbatim_counterexample:
  "\<not> startsWith ''a\<newline>  x\<newline>y'' ''a\<newline>b''
   \<and> text_after_match ''a\<newline>b'' ''a\<newline>  x\<newline>y'' = ''  x\<newline>y''
   \<and> mergeGeneratedAndManual ''g'' ''a\<newline>b'' ''a\<newline>  x\<newline>y''
       = \<lparr>merged = ''g\<newline>x\<newline>y'', hasConflict = True\<rparr>
   \<and> \<not> str_includes (merged (mergeGeneratedAndManual ''g'' ''a\<newline>b'' ''a\<newline>  x\<newline>y''))
                      (text_after_match ''a\<newline>b'' ''a\<newline>  x\<newline>y'')"
  by code_simp

section \<open>Properties of the editor model\<close>





















section \<open>C4: replacing the placeholder\<close>






section \<open>Properties of the recorder's handlers\<close>

lemma moves_no_drag_data:
  "dragData s = None \<Longrightarrow> foldl (\<lambda>s e. handleMouseMoveCapture e s) s moves = s"
  by (induction moves arbitrary: s) (simp_all add: handleMouseMoveCapture_def)

lemma moves_dragging:
  "dragData s = Some d \<Longrightarrow> isDragging d \<Longrightarrow>
     foldl (\<lambda>s e. handleMouseMoveCapture e s) s moves = s"
  by (induction moves arbitrary: s) (simp_all add: handleMouseMoveCapture_def)

lemma moves_pending:
  "dragData s = Some d \<Longrightarrow> \<not> isDragging d \<Longrightarrow>
     foldl (\<lambda>s e. handleMouseMoveCapture e s) s moves
       = s\<lparr>dragData := Some (d\<lparr>isDragging :=
               list_ex (\<lambda>e. \<bar>e_clientX e - clientStartX d\<bar> > 10
                            \<or> \<bar>e_clientY e - clientStartY d\<bar> > 10) moves\<rparr>)\<rparr>"
proof (induction moves arbitrary: s)
  case Nil
  then show ?case by simp
next
  case (Cons e moves)
  show ?case
  proof (cases "\<bar>e_clientX e - clientStartX d\<bar> > 10 \<or> \<bar>e_clientY e - clientStartY d\<bar> > 10")
    case True
    with Cons.prems have step: "handleMouseMoveCapture e s = s\<lparr>dragData := Some (d\<lparr>isDragging := True\<rparr>)\<rparr>"
      by (simp add: handleMouseMoveCapture_def Let_def)
    have "foldl (\<lambda>s e. handleMouseMoveCapture e s) (s\<lparr>dragData := Some (d\<lparr>isDragging := True\<rparr>)\<rparr>) moves
            = s\<lparr>dragData := Some (d\<lparr>isDragging := True\<rparr>)\<rparr>"
      by (rule moves_dragging [where d = "d\<lparr>isDragging := True\<rparr>"]) simp_all
    with step True show ?thesis by simp
  next
    case False
    with Cons.prems have step: "handleMouseMoveCapture e s = s"
      by (simp add: handleMouseMoveCapture_def Let_def)
    with Cons.IH [OF Cons.prems] False show ?thesis by simp
  qed
qed


lemma clickKind_not_smart: "clickKind b d \<noteq> ''smart_click''"
  by (simp add: clickKind_def)

lemma actionKind_smartRecord:
  "actionKind (smartRecord env e (clickKind b d) (clickStepData (clickKind b d) c now dl)) = clickKind b d"
  by (auto simp: actionKind_def smartRecord_def clickStepData_def blank_step_def clickKind_def
      show_opt_string_def split: option.splits)

lemma buffered_iff:
  "(s_type (smartRecord env e (clickKind b d) (clickStepData (clickKind b d) c now dl)) = ''click''
     \<or> (s_type (smartRecord env e (clickKind b d) (clickStepData (clickKind b d) c now dl)) = ''smart_click''
        \<and> s_originalType (smartRecord env e (clickKind b d) (clickStepData (clickKind b d) c now dl)) = Some ''click''))
   \<longleftrightarrow> clickKind b d = ''click''"
  by (auto simp: smartRecord_def clickStepData_def blank_step_def clickKind_def split: option.splits)

lemma smartRecord_coords:
  "s_x (smartRecord env e k (clickStepData k c now dl)) = Some (pt_x c)
   \<and> s_y (smartRecord env e k (clickStepData k c now dl)) = Some (pt_y c)"
  by (auto simp: smartRecord_def clickStepData_def split: option.splits)

lemma processMouseAction_click:
  "canvas env = Some rect \<Longrightarrow> clickKind b d = ''click'' \<Longrightarrow>
   processMouseAction env now e (Some b) (Some d) s =
     s\<lparr>lastActionTime := Some now,
       clickTimeout := Some (now + 250,
         smartRecord env e ''click''
           (clickStepData ''click''
              (scaleCoordinates (e_clientX e) (e_clientY e) rect (screenWidth env) (screenHeight env))
              now (delayBefore now (lastActionTime s))))\<rparr>"
  by (simp add: processMouseAction_def Let_def buffered_iff)

lemma processMouseAction_commit:
  "canvas env = Some rect \<Longrightarrow> clickKind b d \<noteq> ''click'' \<Longrightarrow>
   processMouseAction env now e (Some b) (Some d) s =
     commitAction env
       (smartRecord env e (clickKind b d)
           (clickStepData (clickKind b d)
              (scaleCoordinates (e_clientX e) (e_clientY e) rect (screenWidth env) (screenHeight env))
              now (delayBefore now (lastActionTime s))))
       (s\<lparr>lastActionTime := Some now, clickTimeout := None\<rparr>)"
  by (simp add: processMouseAction_def Let_def buffered_iff)

lemma handleMouseDown_primary:
  "isRecording env \<Longrightarrow> \<not> isPaused env \<Longrightarrow> \<not> isVerifyMode env \<Longrightarrow> \<not> isVerifyTextMode env \<Longrightarrow>
   canvas env = Some rect \<Longrightarrow> e_button e = 0 \<Longrightarrow>
   handleMouseDown env now e s =
     s\<lparr>dragData := Some
         \<lparr>startX = pt_x (scaleCoordinates (e_clientX e) (e_clientY e) rect (screenWidth env) (screenHeight env)),
          startY = pt_y (scaleCoordinates (e_clientX e) (e_clientY e) rect (screenWidth env) (screenHeight env)),
          clientStartX = e_clientX e, clientStartY = e_clientY e,
          isDragging = False, dd_button = 0, dd_detail = e_detail e\<rparr>\<rparr>"
  by (simp add: handleMouseDown_def Let_def)


lemma commitAction_logs:
  "commitAction env st s =
     s\<lparr>stepLog := (if isRecording env \<and> hasOnStep env then stepLog s @ [st] else stepLog s),
       interactionLog := (if hasOnInteraction env then interactionLog s @ [st] else interactionLog s),
       clickTimeout := None\<rparr>"
  by (simp add: commitAction_def)

lemma scale_demo:
  "scaleCoordinates 100 100 \<lparr>rect_left = 0, rect_top = 0, rect_width = 1024, rect_height = 768\<rparr> 1024 768
     = \<lparr>pt_x = 100, pt_y = 100\<rparr>"
  "scaleCoordinates 300 250 \<lparr>rect_left = 0, rect_top = 0, rect_width = 1024, rect_height = 768\<rparr> 1024 768
     = \<lparr>pt_x = 300, pt_y = 250\<rparr>"
  by code_simp+

section \<open>C5: the click debounce\<close>

text \<open>
  C5. While recording, take a primary-button press and release (click count 1) followed
  by a second press and release whose click count is 2, the second release coming less
  than 250 ms after the first, with no click buffered beforehand. After the first release
  a plain click is buffered and nothing is committed. After the second release, and
  however long one waits afterwards, exactly one action has been committed to each
  callback: a double click at the point of the second release; the buffered click was
  cancelled and its timer is gone. The handlers never compare the two points, so this
  holds wherever the releases happen, in particular at the same point.
\<close>

theorem double_click_debounce:
  assumes rec: "isRecording env" "\<not> isPaused env" "\<not> isVerifyMode env" "\<not> isVerifyTextMode env"
    and cv: "canvas env = Some rect"
    and idle: "clickTimeout s0 = None"
    and first: "e_button down1 = 0" "e_detail down1 = 1"
    and second: "e_button down2 = 0" "e_detail down2 = 2"
    and times: "t0 \<le> t1" "t1 \<le> t2" "t2 \<le> t3" "t3 < t1 + 250"
  shows
    "\<exists>click dbl.
       run_events env [(t0, MouseDown down1), (t1, MouseUp up1)] s0
         = s0\<lparr>dragData := None, lastActionTime := Some t1, clickTimeout := Some (t1 + 250, click)\<rparr>
       \<and> actionKind click = ''click''
       \<and> settle env (run_events env
            [(t0, MouseDown down1), (t1, MouseUp up1), (t2, MouseDown down2), (t3, MouseUp up2)] s0)
         = s0\<lparr>dragData := None, lastActionTime := Some t3, clickTimeout := None,
               stepLog := (if hasOnStep env then stepLog s0 @ [dbl] else stepLog s0),
               interactionLog := (if hasOnInteraction env then interactionLog s0 @ [dbl]
                                  else interactionLog s0)\<rparr>
       \<and> actionKind dbl = ''double_click''
       \<and> s_x dbl = Some (pt_x (scaleCoordinates (e_clientX up2) (e_clientY up2) rect
                                  (screenWidth env) (screenHeight env)))
       \<and> s_y dbl = Some (pt_y (scaleCoordinates (e_clientX up2) (e_clientY up2) rect
                                  (screenWidth env) (screenHeight env)))"
proof -
  let ?sc = "\<lambda>e. scaleCoordinates (e_clientX e) (e_clientY e) rect (screenWidth env) (screenHeight env)"
  let ?click = "smartRecord env up1 ''click''
                  (clickStepData ''click'' (?sc up1) t1 (delayBefore t1 (lastActionTime s0)))"
  let ?dbl = "smartRecord env up2 (clickKind 0 2)
                (clickStepData (clickKind 0 2) (?sc up2) t3 (delayBefore t3 (Some t1)))"
  let ?d1 = "\<lparr>startX = pt_x (?sc down1), startY = pt_y (?sc down1),
              clientStartX = e_clientX down1, clientStartY = e_clientY down1,
              isDragging = False, dd_button = 0, dd_detail = e_detail down1\<rparr>"
  let ?d2 = "\<lparr>startX = pt_x (?sc down2), startY = pt_y (?sc down2),
              clientStartX = e_clientX down2, clientStartY = e_clientY down2,
              isDragging = False, dd_button = 0, dd_detail = e_detail down2\<rparr>"
  let ?a = "s0\<lparr>dragData := Some ?d1\<rparr>"
  let ?b = "s0\<lparr>dragData := None, lastActionTime := Some t1, clickTimeout := Some (t1 + 250, ?click)\<rparr>"
  let ?c = "?b\<lparr>dragData := Some ?d2\<rparr>"
  have k1: "clickKind 0 1 = ''click''" and k2: "clickKind 0 2 \<noteq> ''click''"
    by (simp_all add: clickKind_def)
  have adv0: "advance env t0 s0 = s0"
    using idle by (simp add: advance_def)
  have e1: "dispatch env t0 (MouseDown down1) s0 = ?a"
    using handleMouseDown_primary [OF rec cv first(1), of t0 s0] by (simp add: dispatch_def)
  have adv1: "advance env t1 ?a = ?a"
    using idle by (simp add: advance_def)
  have e2: "dispatch env t1 (MouseUp up1) ?a = ?b"
    using processMouseAction_click [OF cv k1, of t1 up1 ?a] first(2)
    by (simp add: dispatch_def handleMouseUpCapture_def)
  have adv2: "advance env t2 ?b = ?b"
    using times by (simp add: advance_def)
  have e3: "dispatch env t2 (MouseDown down2) ?b = ?c"
    using handleMouseDown_primary [OF rec cv second(1), of t2 ?b] by (simp add: dispatch_def)
  have adv3: "advance env t3 ?c = ?c"
    using times by (simp add: advance_def)
  have e4: "dispatch env t3 (MouseUp up2) ?c
              = s0\<lparr>dragData := None, lastActionTime := Some t3, clickTimeout := None,
                   stepLog := (if hasOnStep env then stepLog s0 @ [?dbl] else stepLog s0),
                   interactionLog := (if hasOnInteraction env then interactionLog s0 @ [?dbl]
                                      else interactionLog s0)\<rparr>"
    using processMouseAction_commit [OF cv k2, of t3 up2 ?c] second(2) rec(1)
    by (simp add: dispatch_def handleMouseUpCapture_def commitAction_logs)
  have run2: "run_events env [(t0, MouseDown down1), (t1, MouseUp up1)] s0 = ?b"
    by (simp only: run_events.simps adv0 e1 adv1 e2)
  have "run_events env
            [(t0, MouseDown down1), (t1, MouseUp up1), (t2, MouseDown down2), (t3, MouseUp up2)] s0
         = s0\<lparr>dragData := None, lastActionTime := Some t3, clickTimeout := None,
               stepLog := (if hasOnStep env then stepLog s0 @ [?dbl] else stepLog s0),
               interactionLog := (if hasOnInteraction env then interactionLog s0 @ [?dbl]
                                  else interactionLog s0)\<rparr>"
    by (simp only: run_events.simps adv0 e1 adv1 e2 adv2 e3 adv3 e4)
  then have run4: "settle env (run_events env
            [(t0, MouseDown down1), (t1, MouseUp up1), (t2, MouseDown down2), (t3, MouseUp up2)] s0)
         = s0\<lparr>dragData := None, lastActionTime := Some t3, clickTimeout := None,
               stepLog := (if hasOnStep env then stepLog s0 @ [?dbl] else stepLog s0),
               interactionLog := (if hasOnInteraction env then interactionLog s0 @ [?dbl]
                                  else interactionLog s0)\<rparr>"
    by (simp add: settle_def fireTimer_def)
  have kc: "actionKind ?click = ''click''"
    using actionKind_smartRecord [of env up1 0 1] by (simp add: k1)
  have kd: "actionKind ?dbl = ''double_click''"
    using actionKind_smartRecord [of env up2 0 2] by (simp add: clickKind_def)
  have xy: "s_x ?dbl = Some (pt_x (?sc up2))" "s_y ?dbl = Some (pt_y (?sc up2))"
    using smartRecord_coords [of env up2 "clickKind 0 2" "?sc up2" t3 "delayBefore t3 (Some t1)"]
    by simp_all
  from run2 kc run4 kd xy show ?thesis by blast
qed


theorem double_click_debounce_witness:
  "\<exists>dbl.
     settle (recording_env False) (run_events (recording_env False)
       [(0, MouseDown (mouse_at 100 100 0 1)), (50, MouseUp (mouse_at 100 100 0 1)),
        (150, MouseDown (mouse_at 100 100 0 2)), (200, MouseUp (mouse_at 100 100 0 2))]
       initial_viewer_state)
     = initial_viewer_state\<lparr>dragData := None, lastActionTime := Some 200, clickTimeout := None,
         stepLog := [dbl], interactionLog := [dbl]\<rparr>
     \<and> actionKind dbl = ''double_click'' \<and> s_x dbl = Some 100 \<and> s_y dbl = Some 100"
proof -
  let ?rect = "\<lparr>rect_left = 0, rect_top = 0, rect_width = 1024, rect_height = 768\<rparr>"
  have "\<exists>click dbl.
       run_events (recording_env False)
         [(0, MouseDown (mouse_at 100 100 0 1)), (50, MouseUp (mouse_at 100 100 0 1))]
         initial_viewer_state
         = initial_viewer_state\<lparr>dragData := None, lastActionTime := Some 50,
             clickTimeout := Some (50 + 250, click)\<rparr>
       \<and> actionKind click = ''click''
       \<and> settle (recording_env False) (run_events (recording_env False)
            [(0, MouseDown (mouse_at 100 100 0 1)), (50, MouseUp (mouse_at 100 100 0 1)),
             (150, MouseDown (mouse_at 100 100 0 2)), (200, MouseUp (mouse_at 100 100 0 2))]
            initial_viewer_state)
         = initial_viewer_state\<lparr>dragData := None, lastActionTime := Some 200, clickTimeout := None,
               stepLog := (if hasOnStep (recording_env False)
                           then stepLog initial_viewer_state @ [dbl]
                           else stepLog initial_viewer_state),
               interactionLog := (if hasOnInteraction (recording_env False)
                                  then interactionLog initial_viewer_state @ [dbl]
                                  else interactionLog initial_viewer_state)\<rparr>
       \<and> actionKind dbl = ''double_click''
       \<and> s_x dbl = Some (pt_x (scaleCoordinates (e_clientX (mouse_at 100 100 0 2))
                                  (e_clientY (mouse_at 100 100 0 2)) ?rect
                                  (screenWidth (recording_env False)) (screenHeight (recording_env False))))
       \<and> s_y dbl = Some (pt_y (scaleCoordinates (e_clientX (mouse_at 100 100 0 2))
                                  (e_clientY (mouse_at 100 100 0 2)) ?rect
                                  (screenWidth (recording_env False)) (screenHeight (recording_env False))))"
    by (rule double_click_debounce)
       (simp_all add: recording_env_def mouse_at_def initial_viewer_state_def)
  then show ?thesis
    by (simp add: recording_env_def mouse_at_def initial_viewer_state_def scale_demo) blast
qed


section \<open>C6: drag classification\<close>

text \<open>
  C6. While recording, after a primary-button press and any sequence of move events the
  gesture is dragging if and only if some move was more than 10 units away from the
  press point on the horizontal or the vertical axis: a move of exactly 10 units leaves
  it pending, one of 11 units makes it a drag. A release while dragging commits one drag
  action, from the remote coordinates of the press to those of the release, to each
  callback, clears the gesture, and neither commits nor buffers a click: the click timer
  is as it was before the press.
\<close>

theorem drag_classification:
  assumes rec: "isRecording env" "\<not> isPaused env" "\<not> isVerifyMode env" "\<not> isVerifyTextMode env"
    and cv: "canvas env = Some rect"
    and btn: "e_button down = 0"
  shows
    "(\<exists>d. dragData (foldl (\<lambda>s e. handleMouseMoveCapture e s) (handleMouseDown env t0 down s0) moves) = Some d
          \<and> (isDragging d \<longleftrightarrow>
               (\<exists>m \<in> set moves. \<bar>e_clientX m - e_clientX down\<bar> > 10
                                \<or> \<bar>e_clientY m - e_clientY down\<bar> > 10)))
     \<and> map_option isDragging
           (dragData (handleMouseMoveCapture (down\<lparr>e_clientX := e_clientX down + 10\<rparr>)
                        (handleMouseDown env t0 down s0))) = Some False
     \<and> map_option isDragging
           (dragData (handleMouseMoveCapture (down\<lparr>e_clientX := e_clientX down + 11\<rparr>)
                        (handleMouseDown env t0 down s0))) = Some True
     \<and> ((\<exists>m \<in> set moves. \<bar>e_clientX m - e_clientX down\<bar> > 10
                            \<or> \<bar>e_clientY m - e_clientY down\<bar> > 10) \<longrightarrow>
         (\<exists>st. handleMouseUpCapture env t1 up
                  (foldl (\<lambda>s e. handleMouseMoveCapture e s) (handleMouseDown env t0 down s0) moves)
                = Inr (s0\<lparr>lastActionTime := Some t1,
                          stepLog := (if hasOnStep env then stepLog s0 @ [st] else stepLog s0),
                          interactionLog := (if hasOnInteraction env then interactionLog s0 @ [st]
                                             else interactionLog s0),
                          dragData := None\<rparr>)
               \<and> s_type st = ''drag''
               \<and> s_x st = Some (pt_x (scaleCoordinates (e_clientX down) (e_clientY down) rect
                                         (screenWidth env) (screenHeight env)))
               \<and> s_y st = Some (pt_y (scaleCoordinates (e_clientX down) (e_clientY down) rect
                                         (screenWidth env) (screenHeight env)))
               \<and> s_end_x st = Some (pt_x (scaleCoordinates (e_clientX up) (e_clientY up) rect
                                             (screenWidth env) (screenHeight env)))
               \<and> s_end_y st = Some (pt_y (scaleCoordinates (e_clientX up) (e_clientY up) rect
                                             (screenWidth env) (screenHeight env)))))"
proof -
  let ?c0 = "scaleCoordinates (e_clientX down) (e_clientY down) rect (screenWidth env) (screenHeight env)"
  let ?d = "\<lparr>startX = pt_x ?c0, startY = pt_y ?c0,
             clientStartX = e_clientX down, clientStartY = e_clientY down,
             isDragging = False, dd_button = 0, dd_detail = e_detail down\<rparr>"
  let ?far = "\<lambda>e. \<bar>e_clientX e - e_clientX down\<bar> > 10 \<or> \<bar>e_clientY e - e_clientY down\<bar> > 10"
  let ?s1 = "foldl (\<lambda>s e. handleMouseMoveCapture e s) (handleMouseDown env t0 down s0) moves"
  have down: "handleMouseDown env t0 down s0 = s0\<lparr>dragData := Some ?d\<rparr>"
    using rec cv btn by (rule handleMouseDown_primary)
  have s1: "?s1 = s0\<lparr>dragData := Some (?d\<lparr>isDragging := list_ex ?far moves\<rparr>)\<rparr>"
    unfolding down
    using moves_pending [of "s0\<lparr>dragData := Some ?d\<rparr>" ?d moves] by simp
  have ex: "list_ex ?far moves \<longleftrightarrow> (\<exists>m \<in> set moves. ?far m)"
    by (simp add: list_ex_iff)
  have part1: "\<exists>d. dragData ?s1 = Some d \<and> (isDragging d \<longleftrightarrow> (\<exists>m \<in> set moves. ?far m))"
    unfolding s1 using ex by simp
  have part2: "(\<exists>m \<in> set moves. ?far m) \<longrightarrow>
         (\<exists>st. handleMouseUpCapture env t1 up ?s1
                = Inr (s0\<lparr>lastActionTime := Some t1,
                          stepLog := (if hasOnStep env then stepLog s0 @ [st] else stepLog s0),
                          interactionLog := (if hasOnInteraction env then interactionLog s0 @ [st]
                                             else interactionLog s0),
                          dragData := None\<rparr>)
               \<and> s_type st = ''drag''
               \<and> s_x st = Some (pt_x ?c0) \<and> s_y st = Some (pt_y ?c0)
               \<and> s_end_x st = Some (pt_x (scaleCoordinates (e_clientX up) (e_clientY up) rect
                                             (screenWidth env) (screenHeight env)))
               \<and> s_end_y st = Some (pt_y (scaleCoordinates (e_clientX up) (e_clientY up) rect
                                             (screenWidth env) (screenHeight env))))"
  proof
    assume far: "\<exists>m \<in> set moves. ?far m"
    with ex have le: "list_ex ?far moves" by simp
    let ?st = "dragStep (?d\<lparr>isDragging := True\<rparr>)
                 (scaleCoordinates (e_clientX up) (e_clientY up) rect (screenWidth env) (screenHeight env))
                 t1 (delayBefore t1 (lastActionTime s0))"
    have "handleMouseUpCapture env t1 up ?s1
            = Inr (s0\<lparr>lastActionTime := Some t1,
                      stepLog := (if hasOnStep env then stepLog s0 @ [?st] else stepLog s0),
                      interactionLog := (if hasOnInteraction env then interactionLog s0 @ [?st]
                                         else interactionLog s0),
                      dragData := None\<rparr>)"
      unfolding s1 using le cv by (simp add: handleMouseUpCapture_def Let_def)
    moreover have "s_type ?st = ''drag''" "s_x ?st = Some (pt_x ?c0)" "s_y ?st = Some (pt_y ?c0)"
      "s_end_x ?st = Some (pt_x (scaleCoordinates (e_clientX up) (e_clientY up) rect
                                             (screenWidth env) (screenHeight env)))"
      "s_end_y ?st = Some (pt_y (scaleCoordinates (e_clientX up) (e_clientY up) rect
                                             (screenWidth env) (screenHeight env)))"
      by (simp_all add: dragStep_def)
    ultimately show "\<exists>st. handleMouseUpCapture env t1 up ?s1
                = Inr (s0\<lparr>lastActionTime := Some t1,
                          stepLog := (if hasOnStep env then stepLog s0 @ [st] else stepLog s0),
                          interactionLog := (if hasOnInteraction env then interactionLog s0 @ [st]
                                             else interactionLog s0),
                          dragData := None\<rparr>)
               \<and> s_type st = ''drag''
               \<and> s_x st = Some (pt_x ?c0) \<and> s_y st = Some (pt_y ?c0)
               \<and> s_end_x st = Some (pt_x (scaleCoordinates (e_clientX up) (e_clientY up) rect
                                             (screenWidth env) (screenHeight env)))
               \<and> s_end_y st = Some (pt_y (scaleCoordinates (e_clientX up) (e_clientY up) rect
                                             (screenWidth env) (screenHeight env)))"
      by blast
  qed
  have ten: "map_option isDragging
           (dragData (handleMouseMoveCapture (down\<lparr>e_clientX := e_clientX down + 10\<rparr>)
                        (handleMouseDown env t0 down s0))) = Some False"
    unfolding down by (simp add: handleMouseMoveCapture_def Let_def)
  have eleven: "map_option isDragging
           (dragData (handleMouseMoveCapture (down\<lparr>e_clientX := e_clientX down + 11\<rparr>)
                        (handleMouseDown env t0 down s0))) = Some True"
    unfolding down by (simp add: handleMouseMoveCapture_def Let_def)
  from part1 ten eleven part2 show ?thesis by blast
qed


theorem drag_classification_witness:
  "map_option isDragging
     (dragData (foldl (\<lambda>s e. handleMouseMoveCapture e s)
        (handleMouseDown (recording_env False) 0 (mouse_at 100 100 0 1) initial_viewer_state)
        [mouse_at 105 100 0 0, mouse_at 111 100 0 0])) = Some True
   \<and> (\<exists>st. handleMouseUpCapture (recording_env False) 900 (mouse_at 300 250 0 1)
              (foldl (\<lambda>s e. handleMouseMoveCapture e s)
                 (handleMouseDown (recording_env False) 0 (mouse_at 100 100 0 1) initial_viewer_state)
                 [mouse_at 105 100 0 0, mouse_at 111 100 0 0])
            = Inr (initial_viewer_state\<lparr>lastActionTime := Some 900, stepLog := [st],
                     interactionLog := [st], dragData := None\<rparr>)
          \<and> s_type st = ''drag'' \<and> s_x st = Some 100 \<and> s_y st = Some 100
          \<and> s_end_x st = Some 300 \<and> s_end_y st = Some 250)"
proof -
  let ?rect = "\<lparr>rect_left = 0, rect_top = 0, rect_width = 1024, rect_height = 768\<rparr>"
  have far: "\<exists>m \<in> set [mouse_at 105 100 0 0, mouse_at 111 100 0 0].
               \<bar>e_clientX m - e_clientX (mouse_at 100 100 0 1)\<bar> > 10
               \<or> \<bar>e_clientY m - e_clientY (mouse_at 100 100 0 1)\<bar> > 10"
    by (simp add: mouse_at_def)
  from drag_classification [of "recording_env False" ?rect "mouse_at 100 100 0 1" 0 initial_viewer_state
                    "[mouse_at 105 100 0 0, mouse_at 111 100 0 0]" 900 "mouse_at 300 250 0 1"] far
  show ?thesis
    by (simp add: recording_env_def mouse_at_def initial_viewer_state_def scale_demo)
qed



section \<open>C7: the coordinate formula\<close>





section \<open>C8: a redefinition of the entry function is always reported\<close>

text \<open>
  C8. Whenever the manual text contains \<open>def run(\<close>, the conflict scan answers with
  \<open>hasConflicts\<close> true and its list holds the \<open>redefine-function\<close> entry, whatever the
  generated text is and whatever else the scan finds.
\<close>

theorem detectCodeConflicts_redefinition:
  "str_includes manualCode ''def run('' \<Longrightarrow>
     hasConflicts (detectCodeConflicts generatedCode manualCode)
     \<and> \<lparr>conflict_type = ''redefine-function'',
         message = ''Manual code redefines run() function - this will override generated code''\<rparr>
         \<in> set (conflicts (detectCodeConflicts generatedCode manualCode))"
proof -
  assume inc: "str_includes manualCode ''def run(''"
  then have ne: "manualCode \<noteq> []" by (cases manualCode) auto
  from inc ne show ?thesis
    by (simp add: detectCodeConflicts_def Let_def)
qed

theorem detectCodeConflicts_redefinition_witness:
  "hasConflicts (detectCodeConflicts ''from autovnc import Keys'' ''import os\<newline>def run(vnc):\<newline>    pass'')
   \<and> \<lparr>conflict_type = ''redefine-function'',
       message = ''Manual code redefines run() function - this will override generated code''\<rparr>
       \<in> set (conflicts (detectCodeConflicts ''from autovnc import Keys'' ''import os\<newline>def run(vnc):\<newline>    pass''))"
proof -
  have inc: "str_includes ''import os\<newline>def run(vnc):\<newline>    pass'' ''def run(''"
    by code_simp
  show ?thesis by (rule detectCodeConflicts_redefinition [OF inc])
qed

section \<open>C9: the order of insertions\<close>

lemma insertCode_keeps_editor: "ed \<noteq> NoEditor \<Longrightarrow> insertCode ed code force \<noteq> NoEditor"
  by (cases ed) (simp_all add: insertCode_def Let_def)










section \<open>C10: splitting a concatenation gives the parts back\<close>

text \<open>
  C10. For every generated text \<open>G\<close> and manual text \<open>M\<close>, separating
  \<open>concatenateCodes(G, M)\<close> at \<open>countLines(G)\<close> lines returns exactly \<open>G\<close> as the generated
  part and \<open>M\<close> as the manual part, also when \<open>G\<close> or \<open>M\<close> is empty.
\<close>

theorem separate_concatenate_roundtrip:
  "separateGeneratedFromManual (concatenateCodes G M) (countLines G)
     = \<lparr>generated = G, manual = M\<rparr>"
proof (cases "G = []")
  case True
  then show ?thesis
    by (simp add: separateGeneratedFromManual_def concatenateCodes_def countLines_def)
next
  case G: False
  have len: "0 < length (split_lines G)"
    using split_on_nonempty [of newline G] by (simp add: split_lines_def)
  show ?thesis
  proof (cases "M = []")
    case True
    with G len show ?thesis
      by (simp add: separateGeneratedFromManual_def concatenateCodes_def countLines_def
          join_split_lines) (simp add: join_lines_def)
  next
    case False
    have sp: "split_lines (G @ newline # M) = split_lines G @ split_lines M"
      by (simp add: split_lines_def split_on_append)
    from G False len show ?thesis
      by (simp add: separateGeneratedFromManual_def concatenateCodes_def countLines_def sp
          join_split_lines)
  qed
qed

theorem separate_concatenate_roundtrip_witness:
  "separateGeneratedFromManual (concatenateCodes ''a'' ''b'') (countLines ''a'')
     = \<lparr>generated = ''a'', manual = ''b''\<rparr>"
  using separate_concatenate_roundtrip [of "''a''" "''b''"] by simp

end
